theory Spec2Isabelle
  imports Main
begin

section \<open>Data model\<close>

text \<open>
  The match form (MatchManager) and the match views work on plain JavaScript objects.
  Every numeric field of a set is either an integer or \<open>null\<close>: \<open>updateSet\<close> stores
  \<open>value === '' ? null : parseInt(value, 10)\<close> into whichever field is edited, the game
  counts included, and the readers guard with \<open>|| 0\<close> and \<open>!== null\<close>. A field is therefore
  an \<open>int option\<close>, \<open>None\<close> being \<open>null\<close>. (\<open>NaN\<close>, which \<open>parseInt\<close> yields only for
  text that is not a number, is not part of the model.)
\<close>

record tennis_set =
  player1_games :: "int option"
  player2_games :: "int option"
  tiebreak_p1 :: "int option"
  tiebreak_p2 :: "int option"
  supertiebreak_p1 :: "int option"
  supertiebreak_p2 :: "int option"

record tournament =
  t_id :: string
  t_name :: string
  category :: string
  surface :: string
  is_best_of_five :: bool

text \<open>The state of the match form, \<open>formData\<close>. An identifier that is not set is \<open>''\<close>.\<close>

record formData =
  tournament_id :: string
  player1_id :: string
  player2_id :: string
  winner_id :: string
  sets :: "tennis_set list"

text \<open>A stored match, as the backend returns it; \<open>match.sets\<close> may be missing.\<close>

record match =
  m_id :: string
  m_tournament_id :: string
  m_player1_id :: string
  m_player2_id :: string
  m_winner_id :: string
  m_sets :: "tennis_set list option"

subsection \<open>JavaScript operators on nullable numbers\<close>

text \<open>\<open>ToNumber\<close>: the relational operators read \<open>null\<close> as \<open>0\<close>.\<close>

definition to_number :: "int option \<Rightarrow> int" where
  "to_number v = (case v of None \<Rightarrow> 0 | Some n \<Rightarrow> n)"

definition js_gt :: "int option \<Rightarrow> int option \<Rightarrow> bool" where
  "js_gt a b = (to_number a > to_number b)"

definition js_lt :: "int option \<Rightarrow> int option \<Rightarrow> bool" where
  "js_lt a b = (to_number a < to_number b)"

text \<open>\<open>v || 0\<close>: a falsy operand (\<open>null\<close> or \<open>0\<close>) gives the right operand.\<close>

definition or_zero :: "int option \<Rightarrow> int" where
  "or_zero v = (case v of None \<Rightarrow> 0 | Some n \<Rightarrow> if n = 0 then 0 else n)"

text \<open>\<open>tournaments.find(t => t.id === tournamentId)\<close>\<close>

definition find_tournament :: "tournament list \<Rightarrow> string \<Rightarrow> tournament option" where
  "find_tournament tournaments tournamentId = find (\<lambda>t. t_id t = tournamentId) tournaments"

section \<open>Winner derivation: \<open>calculateWinner\<close>\<close>

text \<open>
  The \<open>forEach\<close> loop over \<open>formData.sets\<close>, carrying the two counters
  \<open>(player1Sets, player2Sets)\<close>: a set goes to player 1 when
  \<open>set.player1_games > set.player2_games\<close>, and to player 2 in the \<open>else\<close> branch.
\<close>

fun tallySets :: "tennis_set list \<Rightarrow> nat \<times> nat \<Rightarrow> nat \<times> nat" where
  "tallySets [] (player1Sets, player2Sets) = (player1Sets, player2Sets)"
| "tallySets (s # rest) (player1Sets, player2Sets) =
     (if js_gt (player1_games s) (player2_games s)
      then tallySets rest (player1Sets + 1, player2Sets)
      else tallySets rest (player1Sets, player2Sets + 1))"

definition player1Sets :: "formData \<Rightarrow> nat" where
  "player1Sets fd = fst (tallySets (sets fd) (0, 0))"

definition player2Sets :: "formData \<Rightarrow> nat" where
  "player2Sets fd = snd (tallySets (sets fd) (0, 0))"

text \<open>\<open>tournament?.is_best_of_five ? 3 : 2\<close>: a tournament that is not found gives 2.\<close>

definition setsToWin :: "tournament list \<Rightarrow> formData \<Rightarrow> nat" where
  "setsToWin tournaments fd =
     (case find_tournament tournaments (tournament_id fd) of
        None \<Rightarrow> 2
      | Some t \<Rightarrow> if is_best_of_five t then 3 else 2)"

text \<open>The result is a player identifier, or \<open>None\<close> for \<open>null\<close>.\<close>

definition calculateWinner :: "tournament list \<Rightarrow> formData \<Rightarrow> string option" where
  "calculateWinner tournaments fd =
     (if length (sets fd) = 0 then None
      else if player1Sets fd \<ge> setsToWin tournaments fd then Some (player1_id fd)
      else if player2Sets fd \<ge> setsToWin tournaments fd then Some (player2_id fd)
      else None)"

text \<open>The sets a side has won outright, counted the way the specification words it.\<close>

definition sets_won_p1 :: "tennis_set list \<Rightarrow> nat" where
  "sets_won_p1 ss = length (filter (\<lambda>s. to_number (player1_games s) > to_number (player2_games s)) ss)"

definition sets_won_p2 :: "tennis_set list \<Rightarrow> nat" where
  "sets_won_p2 ss = length (filter (\<lambda>s. to_number (player2_games s) > to_number (player1_games s)) ss)"

definition tied :: "tennis_set \<Rightarrow> bool" where
  "tied s = (to_number (player1_games s) = to_number (player2_games s))"

section \<open>Match validation: \<open>validateMatch\<close>\<close>

text \<open>
  Each failure of the validator shows a message and returns \<open>false\<close>; the messages are the
  constructors below, those about a set carrying the set number \<open>i + 1\<close> of the message.
  Success (\<open>return true\<close>) is \<open>Inr ()\<close>.
\<close>

datatype validation_error =
    MissingField
  | DuplicatePlayers
  | InvalidWinner
  | EmptySets
  | NegativeGames nat
  | TiedSet nat
  | MissingTiebreak nat

text \<open>The \<open>for\<close> loop over the sets, \<open>i\<close> being the index of the head of the list.\<close>

fun validateSets :: "nat \<Rightarrow> tennis_set list \<Rightarrow> validation_error + unit" where
  "validateSets i [] = Inr ()"
| "validateSets i (s # rest) =
     (if js_lt (player1_games s) (Some 0) \<or> js_lt (player2_games s) (Some 0)
      then Inl (NegativeGames (i + 1))
      else if player1_games s = player2_games s
      then Inl (TiedSet (i + 1))
      else if ((player1_games s = Some 7 \<and> player2_games s = Some 6) \<or>
               (player1_games s = Some 6 \<and> player2_games s = Some 7)) \<and>
              (tiebreak_p1 s = None \<or> tiebreak_p2 s = None)
      then Inl (MissingTiebreak (i + 1))
      else validateSets (i + 1) rest)"

definition validateMatch :: "formData \<Rightarrow> validation_error + unit" where
  "validateMatch fd =
     (if tournament_id fd = [] \<or> player1_id fd = [] \<or> player2_id fd = [] \<or> winner_id fd = []
      then Inl MissingField
      else if player1_id fd = player2_id fd
      then Inl DuplicatePlayers
      else if winner_id fd \<noteq> player1_id fd \<and> winner_id fd \<noteq> player2_id fd
      then Inl InvalidWinner
      else if length (sets fd) = 0
      then Inl EmptySets
      else validateSets 0 (sets fd))"

text \<open>
  What the loop lets through: a set on which none of its three tests fires. The first test
  compares with \<open><\<close>, which reads \<open>null\<close> as \<open>0\<close>; the second compares the two fields
  with \<open>===\<close>, which does not.
\<close>

definition set_accepted :: "tennis_set \<Rightarrow> bool" where
  "set_accepted s =
     (\<not> js_lt (player1_games s) (Some 0) \<and> \<not> js_lt (player2_games s) (Some 0) \<and>
      player1_games s \<noteq> player2_games s \<and>
      \<not> (((player1_games s = Some 7 \<and> player2_games s = Some 6) \<or>
           (player1_games s = Some 6 \<and> player2_games s = Some 7)) \<and>
          (tiebreak_p1 s = None \<or> tiebreak_p2 s = None)))"

text \<open>
  The conditions of the specification, in its words. A game count is the number of games of
  a side, an empty field counting as no game, as in every comparison and display of the
  code; two counts are unequal when these numbers differ.
\<close>

definition tiebreak_score :: "tennis_set \<Rightarrow> bool" where
  "tiebreak_score s =
     ((to_number (player1_games s) = 7 \<and> to_number (player2_games s) = 6) \<or>
      (to_number (player1_games s) = 6 \<and> to_number (player2_games s) = 7))"

definition set_well_formed :: "tennis_set \<Rightarrow> bool" where
  "set_well_formed s =
     (0 \<le> to_number (player1_games s) \<and> 0 \<le> to_number (player2_games s) \<and>
      to_number (player1_games s) \<noteq> to_number (player2_games s) \<and>
      (tiebreak_score s \<longrightarrow> tiebreak_p1 s \<noteq> None \<and> tiebreak_p2 s \<noteq> None))"

definition fields_well_formed :: "formData \<Rightarrow> bool" where
  "fields_well_formed fd =
     (tournament_id fd \<noteq> [] \<and> player1_id fd \<noteq> [] \<and> player2_id fd \<noteq> [] \<and> winner_id fd \<noteq> [] \<and>
      player1_id fd \<noteq> player2_id fd \<and>
      (winner_id fd = player1_id fd \<or> winner_id fd = player2_id fd) \<and>
      sets fd \<noteq> [])"

definition match_well_formed :: "formData \<Rightarrow> bool" where
  "match_well_formed fd = (fields_well_formed fd \<and> list_all set_well_formed (sets fd))"

text \<open>A set with \<open>0\<close> in one games field and \<open>null\<close> in the other.\<close>

definition zero_and_null :: "tennis_set \<Rightarrow> bool" where
  "zero_and_null s =
     ((player1_games s = Some 0 \<and> player2_games s = None) \<or>
      (player1_games s = None \<and> player2_games s = Some 0))"

section \<open>Submission: \<open>handleSubmit\<close>\<close>

text \<open>
  What the form sends: \<open>axios.put\<close> to the match being edited, or \<open>axios.post\<close>, with
  \<open>submitData\<close>. A form that fails validation sends nothing. \<open>submitData\<close> is a copy of
  \<open>formData\<close> as it is when the handler runs (the \<open>setFormData\<close> call takes effect on the
  next render only), its \<open>winner_id\<close> replaced when \<open>calculatedWinner\<close> is truthy.
\<close>

datatype request = Put string formData | Post formData

fun payload :: "request \<Rightarrow> formData" where
  "payload (Put matchId submitData) = submitData"
| "payload (Post submitData) = submitData"

definition handleSubmit ::
  "tournament list \<Rightarrow> match option \<Rightarrow> formData \<Rightarrow> validation_error + request" where
  "handleSubmit tournaments editingMatch fd =
     (case validateMatch fd of
        Inl e \<Rightarrow> Inl e
      | Inr _ \<Rightarrow>
          let calculatedWinner = calculateWinner tournaments fd;
              submitData = (case calculatedWinner of
                              None \<Rightarrow> fd
                            | Some w \<Rightarrow> if w = [] then fd else fd\<lparr>winner_id := w\<rparr>)
          in Inr (case editingMatch of
                    Some m \<Rightarrow> Put (m_id m) submitData
                  | None \<Rightarrow> Post submitData))"

section \<open>Decisive set: \<open>isDecisiveSet\<close>\<close>

text \<open>
  The match form shows the supertiebreak inputs of a set when \<open>isDecisiveSet(index)\<close>
  holds and the tiebreak inputs otherwise. \<open>setIndex\<close> is the index of the set in
  \<open>formData.sets.map\<close>.
\<close>

definition isDecisiveSet :: "tournament list \<Rightarrow> formData \<Rightarrow> nat \<Rightarrow> bool" where
  "isDecisiveSet tournaments fd setIndex =
     (case find_tournament tournaments (tournament_id fd) of
        None \<Rightarrow> False
      | Some t \<Rightarrow> if is_best_of_five t then setIndex = 4 else setIndex = 2)"

text \<open>
  The match detail view marks one set card with a ring and the word \<open>Decisivo\<close>:
  \<open>isDecisive = setIndex === match.sets.length - 1\<close> in \<open>formatSetScore\<close>. The mark chooses
  no tiebreak field: both pairs are shown whenever they are not \<open>null\<close>.
\<close>

definition formatSetScore_isDecisive :: "tennis_set list \<Rightarrow> nat \<Rightarrow> bool" where
  "formatSetScore_isDecisive match_sets setIndex = (int setIndex = int (length match_sets) - 1)"

section \<open>Editing the set list: \<open>initializeSets\<close>, \<open>addSet\<close>, \<open>removeSet\<close>\<close>

definition emptySet :: tennis_set where
  "emptySet = \<lparr>player1_games = Some 0, player2_games = Some 0, tiebreak_p1 = None,
     tiebreak_p2 = None, supertiebreak_p1 = None, supertiebreak_p2 = None\<rparr>"

text \<open>\<open>Math.ceil(maxSets / 2)\<close> on a natural number.\<close>

definition ceil_half :: "nat \<Rightarrow> nat" where
  "ceil_half n = n div 2 + n mod 2"

definition maxSets :: "tournament \<Rightarrow> nat" where
  "maxSets t = (if is_best_of_five t then 5 else 3)"

definition initializeSets :: "tournament list \<Rightarrow> string \<Rightarrow> tennis_set list" where
  "initializeSets tournaments tournamentId =
     (case find_tournament tournaments tournamentId of
        None \<Rightarrow> []
      | Some t \<Rightarrow> let minSetsToWin = ceil_half (maxSets t) in replicate minSetsToWin emptySet)"

definition handleTournamentChange :: "tournament list \<Rightarrow> formData \<Rightarrow> string \<Rightarrow> formData" where
  "handleTournamentChange tournaments fd tournamentId =
     fd\<lparr>tournament_id := tournamentId, sets := initializeSets tournaments tournamentId\<rparr>"

definition addSet :: "tournament list \<Rightarrow> formData \<Rightarrow> formData" where
  "addSet tournaments fd =
     (case find_tournament tournaments (tournament_id fd) of
        None \<Rightarrow> fd
      | Some t \<Rightarrow> if length (sets fd) \<ge> maxSets t then fd
                  else fd\<lparr>sets := sets fd @ [emptySet]\<rparr>)"

text \<open>\<open>xs.filter((_, i) => p(i))\<close>, \<open>k\<close> being the index of the head of the list.\<close>

fun filter_index :: "(nat \<Rightarrow> bool) \<Rightarrow> nat \<Rightarrow> 'a list \<Rightarrow> 'a list" where
  "filter_index p k [] = []"
| "filter_index p k (x # xs) =
     (if p k then x # filter_index p (k + 1) xs else filter_index p (k + 1) xs)"

definition removeSet :: "formData \<Rightarrow> nat \<Rightarrow> formData" where
  "removeSet fd index =
     (if length (sets fd) \<le> 1 then fd
      else fd\<lparr>sets := filter_index (\<lambda>i. i \<noteq> index) 0 (sets fd)\<rparr>)"

text \<open>
  The three operations as events of the form. The tournament selector offers one item per
  tournament of the list, so a selection carries the identifier of a listed tournament.
\<close>

datatype form_event = SelectTournament string | AddSet | RemoveSet nat

fun step :: "tournament list \<Rightarrow> formData \<Rightarrow> form_event \<Rightarrow> formData" where
  "step tournaments fd (SelectTournament tournamentId) =
     handleTournamentChange tournaments fd tournamentId"
| "step tournaments fd AddSet = addSet tournaments fd"
| "step tournaments fd (RemoveSet index) = removeSet fd index"

fun run :: "tournament list \<Rightarrow> formData \<Rightarrow> form_event list \<Rightarrow> formData" where
  "run tournaments fd [] = fd"
| "run tournaments fd (ev # evs) = run tournaments (step tournaments fd ev) evs"

fun offered :: "tournament list \<Rightarrow> form_event \<Rightarrow> bool" where
  "offered tournaments (SelectTournament tournamentId) =
     (find_tournament tournaments tournamentId \<noteq> None)"
| "offered tournaments AddSet = True"
| "offered tournaments (RemoveSet index) = True"

text \<open>The bound of the format: 5 when the selected tournament is best-of-five, 3 otherwise.\<close>

definition format_max :: "tournament list \<Rightarrow> formData \<Rightarrow> nat" where
  "format_max tournaments fd =
     (case find_tournament tournaments (tournament_id fd) of
        Some t \<Rightarrow> if is_best_of_five t then 5 else 3
      | None \<Rightarrow> 3)"

text \<open>The form as \<open>resetForm\<close> leaves it.\<close>

definition blank_form :: formData where
  "blank_form = \<lparr>tournament_id = [], player1_id = [], player2_id = [], winner_id = [], sets = []\<rparr>"

text \<open>The invariant of the set list: a listed tournament is selected and the count is in range.\<close>

definition set_count_ok :: "tournament list \<Rightarrow> formData \<Rightarrow> bool" where
  "set_count_ok tournaments fd =
     (find_tournament tournaments (tournament_id fd) \<noteq> None \<and>
      1 \<le> length (sets fd) \<and> length (sets fd) \<le> format_max tournaments fd)"

section \<open>Score formatting: \<open>formatMatchScore\<close>\<close>

text \<open>
  A number inside a template literal is written in decimal digits, with a leading minus
  sign when negative (the integers that can occur here are far below the size at which
  JavaScript switches to exponent notation).
\<close>

definition digit_char :: "nat \<Rightarrow> char" where
  "digit_char d = ''0123456789'' ! (d mod 10)"

function show_nat :: "nat \<Rightarrow> string" where
  "show_nat n = (if n < 10 then [digit_char n] else show_nat (n div 10) @ [digit_char (n mod 10)])"
  by pat_completeness auto
termination
  by (relation "measure (\<lambda>n. n)") auto

declare show_nat.simps [simp del]

definition show_int :: "int \<Rightarrow> string" where
  "show_int i = (if i < 0 then ''-'' @ show_nat (nat (- i)) else show_nat (nat i))"

text \<open>The callback of \<open>sets.map\<close>: the text of one set.\<close>

definition formatSet :: "tennis_set \<Rightarrow> string" where
  "formatSet s =
     (let p1Games = or_zero (player1_games s);
          p2Games = or_zero (player2_games s);
          scoreStr = show_int p1Games @ ''-'' @ show_int p2Games;
          scoreStr = (case (tiebreak_p1 s, tiebreak_p2 s) of
                        (Some tb1, Some tb2) \<Rightarrow>
                          (let winner_tb = (if tb1 > tb2 then tb1 else tb2)
                           in scoreStr @ ''('' @ show_int winner_tb @ '')'')
                      | _ \<Rightarrow> scoreStr);
          scoreStr = (case (supertiebreak_p1 s, supertiebreak_p2 s) of
                        (Some stb1, Some stb2) \<Rightarrow>
                          (let winner_stb = (if stb1 > stb2 then stb1 else stb2)
                           in scoreStr @ ''['' @ show_int winner_stb @ '']'')
                      | _ \<Rightarrow> scoreStr)
      in scoreStr)"

text \<open>
  \<open>Array.prototype.join\<close>: the result starts as the first element, and each later element
  is appended after the separator.
\<close>

fun join_loop :: "string \<Rightarrow> string list \<Rightarrow> string \<Rightarrow> string" where
  "join_loop sep [] r = r"
| "join_loop sep (x # xs) r = join_loop sep xs (r @ sep @ x)"

definition js_join :: "string \<Rightarrow> string list \<Rightarrow> string" where
  "js_join sep xs = (case xs of [] \<Rightarrow> [] | x # rest \<Rightarrow> join_loop sep rest x)"

text \<open>The argument is \<open>None\<close> when \<open>sets\<close> is missing (\<open>!sets\<close>).\<close>

definition formatMatchScore :: "tennis_set list option \<Rightarrow> string" where
  "formatMatchScore sets_arg =
     (case sets_arg of
        None \<Rightarrow> ''Sin sets''
      | Some ss \<Rightarrow> if length ss = 0 then ''Sin sets''
                   else js_join '', '' (map formatSet ss))"

text \<open>The fragment of one set and the joined score, in the words of the specification.\<close>

definition bracketed :: "string \<Rightarrow> string \<Rightarrow> int option \<Rightarrow> int option \<Rightarrow> string" where
  "bracketed opening closing a b =
     (if a \<noteq> None \<and> b \<noteq> None then opening @ show_int (max (to_number a) (to_number b)) @ closing
      else [])"

definition spec_fragment :: "tennis_set \<Rightarrow> string" where
  "spec_fragment s =
     show_int (to_number (player1_games s)) @ ''-'' @ show_int (to_number (player2_games s))
     @ bracketed ''('' '')'' (tiebreak_p1 s) (tiebreak_p2 s)
     @ bracketed ''['' '']'' (supertiebreak_p1 s) (supertiebreak_p2 s)"

fun separated :: "string \<Rightarrow> string list \<Rightarrow> string" where
  "separated sep [] = []"
| "separated sep [x] = x"
| "separated sep (x # y # ys) = x @ sep @ separated sep (y # ys)"

section \<open>Match statistics: \<open>calculateMatchStats\<close>\<close>

record match_stats =
  p1Games :: int
  p2Games :: int
  p1Sets :: nat
  p2Sets :: nat
  totalTiebreaks :: nat
  p1Tiebreaks :: nat
  totalSupertiebreaks :: nat
  p1Supertiebreaks :: nat
  gamesDifferential :: int

definition zero_stats :: match_stats where
  "zero_stats = \<lparr>p1Games = 0, p2Games = 0, p1Sets = 0, p2Sets = 0, totalTiebreaks = 0,
     p1Tiebreaks = 0, totalSupertiebreaks = 0, p1Supertiebreaks = 0, gamesDifferential = 0\<rparr>"

text \<open>The body of the \<open>forEach\<close> loop: the counters after one more set.\<close>

definition count_set :: "tennis_set \<Rightarrow> match_stats \<Rightarrow> match_stats" where
  "count_set s st =
     (let st = st\<lparr>p1Games := p1Games st + or_zero (player1_games s)\<rparr>;
          st = st\<lparr>p2Games := p2Games st + or_zero (player2_games s)\<rparr>;
          st = (if or_zero (player1_games s) > or_zero (player2_games s)
                then st\<lparr>p1Sets := p1Sets st + 1\<rparr>
                else st\<lparr>p2Sets := p2Sets st + 1\<rparr>);
          st = (if tiebreak_p1 s \<noteq> None \<and> tiebreak_p2 s \<noteq> None
                then (let st = st\<lparr>totalTiebreaks := totalTiebreaks st + 1\<rparr>
                      in if or_zero (tiebreak_p1 s) > or_zero (tiebreak_p2 s)
                         then st\<lparr>p1Tiebreaks := p1Tiebreaks st + 1\<rparr> else st)
                else st);
          st = (if supertiebreak_p1 s \<noteq> None \<and> supertiebreak_p2 s \<noteq> None
                then (let st = st\<lparr>totalSupertiebreaks := totalSupertiebreaks st + 1\<rparr>
                      in if or_zero (supertiebreak_p1 s) > or_zero (supertiebreak_p2 s)
                         then st\<lparr>p1Supertiebreaks := p1Supertiebreaks st + 1\<rparr> else st)
                else st)
      in st)"

fun stats_loop :: "tennis_set list \<Rightarrow> match_stats \<Rightarrow> match_stats" where
  "stats_loop [] st = st"
| "stats_loop (s # rest) st = stats_loop rest (count_set s st)"

text \<open>
  The result is \<open>None\<close> for the empty object returned when the match or its sets are
  missing; otherwise the counters, with \<open>gamesDifferential = Math.abs(p1Games - p2Games)\<close>
  filled in once the loop is over.
\<close>

definition calculateMatchStats :: "match option \<Rightarrow> match_stats option" where
  "calculateMatchStats m =
     (case m of
        None \<Rightarrow> None
      | Some mt \<Rightarrow>
          (case m_sets mt of
             None \<Rightarrow> None
           | Some ss \<Rightarrow>
               let st = stats_loop ss zero_stats
               in Some (st\<lparr>gamesDifferential := \<bar>p1Games st - p2Games st\<bar>\<rparr>)))"

section \<open>Lookup helpers\<close>

text \<open>
  The colour and icon helpers of the surface page read \<open>colors[surfaceName]\<close> from an object
  literal. Such a read finds the object's own keys first and then the members that every
  object inherits from \<open>Object.prototype\<close>; only a key found in neither place gives
  \<open>undefined\<close>. The result of a read is therefore a string of the literal, or an inherited
  member (a function or object, named here by its key), or nothing.
\<close>

datatype js_value = JString string | JInherited string

definition object_prototype_members :: "string list" where
  "object_prototype_members =
     [''constructor'', ''hasOwnProperty'', ''isPrototypeOf'', ''propertyIsEnumerable'',
      ''toLocaleString'', ''toString'', ''valueOf'', ''__proto__'', ''__defineGetter__'',
      ''__defineSetter__'', ''__lookupGetter__'', ''__lookupSetter__'']"

definition js_get :: "(string \<times> string) list \<Rightarrow> string \<Rightarrow> js_value option" where
  "js_get obj key =
     (case map_of obj key of
        Some v \<Rightarrow> Some (JString v)
      | None \<Rightarrow> if key \<in> set object_prototype_members then Some (JInherited key) else None)"

text \<open>\<open>v || d\<close>: \<open>undefined\<close> and the empty string are falsy, an inherited member is truthy.\<close>

definition or_default :: "js_value option \<Rightarrow> string \<Rightarrow> js_value" where
  "or_default v d =
     (case v of
        None \<Rightarrow> JString d
      | Some (JString s) \<Rightarrow> if s = [] then JString d else JString s
      | Some (JInherited k) \<Rightarrow> JInherited k)"

definition surface_colors :: "(string \<times> string) list" where
  "surface_colors =
     [(''Hierba'', ''from-green-500 to-green-600''),
      (''Dura'', ''from-blue-500 to-blue-600''),
      (''Tierra'', ''from-orange-500 to-orange-600''),
      (''Dura Indoor'', ''from-purple-500 to-purple-600'')]"

definition getSurfaceColor :: "string \<Rightarrow> js_value" where
  "getSurfaceColor surfaceName = or_default (js_get surface_colors surfaceName) ''from-gray-500 to-gray-600''"

definition surface_icons :: "(string \<times> string) list" where
  "surface_icons =
     [(''Hierba'', [CHR 0xF0, CHR 0x9F, CHR 0x8C, CHR 0xB1]),
      (''Dura'', [CHR 0xF0, CHR 0x9F, CHR 0x8F, CHR 0x9F, CHR 0xEF, CHR 0xB8, CHR 0x8F]),
      (''Tierra'', [CHR 0xF0, CHR 0x9F, CHR 0x9F, CHR 0xAB]),
      (''Dura Indoor'', [CHR 0xF0, CHR 0x9F, CHR 0x8F, CHR 0xA2])]"

definition getSurfaceIcon :: "string \<Rightarrow> js_value" where
  "getSurfaceIcon surfaceName =
     or_default (js_get surface_icons surfaceName) [CHR 0xF0, CHR 0x9F, CHR 0x8E, CHR 0xBE]"

text \<open>
  The tournament page searches its two tables with \<open>find\<close> and falls back to the first entry:
  \<open>TOURNAMENT_CATEGORIES.find(cat => cat.value === category) || TOURNAMENT_CATEGORIES[0]\<close>.
\<close>

record category_info =
  c_value :: string
  c_label :: string
  c_points :: int
  c_color :: string

record surface_info =
  s_value :: string
  s_label :: string
  s_color :: string

definition TOURNAMENT_CATEGORIES :: "category_info list" where
  "TOURNAMENT_CATEGORIES =
     [\<lparr>c_value = ''Grand Slam'', c_label = ''Grand Slam'', c_points = 2000, c_color = ''bg-red-500''\<rparr>,
      \<lparr>c_value = ''Masters 1000'', c_label = ''Masters 1000'', c_points = 1000, c_color = ''bg-purple-500''\<rparr>,
      \<lparr>c_value = ''Masters 500'', c_label = ''Masters 500'', c_points = 500, c_color = ''bg-cyan-500''\<rparr>,
      \<lparr>c_value = ''ATP Finals'', c_label = ''ATP Finals'', c_points = 1500, c_color = ''bg-yellow-500''\<rparr>,
      \<lparr>c_value = ''Copa Davis'', c_label = ''Copa Davis'', c_points = 0, c_color = ''bg-emerald-500''\<rparr>]"

definition SURFACES :: "surface_info list" where
  "SURFACES =
     [\<lparr>s_value = ''Hierba'', s_label = ''Hierba'', s_color = ''bg-green-500''\<rparr>,
      \<lparr>s_value = ''Dura'', s_label = ''Dura'', s_color = ''bg-blue-500''\<rparr>,
      \<lparr>s_value = ''Tierra'', s_label = ''Tierra'', s_color = ''bg-orange-500''\<rparr>,
      \<lparr>s_value = ''Dura Indoor'', s_label = ''Dura Indoor'', s_color = ''bg-purple-500''\<rparr>]"

definition getCategoryInfo :: "string \<Rightarrow> category_info" where
  "getCategoryInfo cat_name =
     (case find (\<lambda>cat. c_value cat = cat_name) TOURNAMENT_CATEGORIES of
        Some cat \<Rightarrow> cat
      | None \<Rightarrow> TOURNAMENT_CATEGORIES ! 0)"

definition getSurfaceInfo :: "string \<Rightarrow> surface_info" where
  "getSurfaceInfo surface_name =
     (case find (\<lambda>surf. s_value surf = surface_name) SURFACES of
        Some surf \<Rightarrow> surf
      | None \<Rightarrow> SURFACES ! 0)"

text \<open>The two fixed enumerations.\<close>

definition surface_names :: "string list" where
  "surface_names = [''Hierba'', ''Dura'', ''Tierra'', ''Dura Indoor'']"

definition category_names :: "string list" where
  "category_names = [''Grand Slam'', ''Masters 1000'', ''Masters 500'', ''ATP Finals'', ''Copa Davis'']"

section \<open>Sample data\<close>

text \<open>Sample data used by the concrete evaluations below.\<close>

definition mk_set :: "int option \<Rightarrow> int option \<Rightarrow> tennis_set" where
  "mk_set g1 g2 = \<lparr>player1_games = g1, player2_games = g2, tiebreak_p1 = None, tiebreak_p2 = None,
     supertiebreak_p1 = None, supertiebreak_p2 = None\<rparr>"

definition mk_tb_set :: "int \<Rightarrow> int \<Rightarrow> int \<Rightarrow> int \<Rightarrow> tennis_set" where
  "mk_tb_set g1 g2 tb1 tb2 = \<lparr>player1_games = Some g1, player2_games = Some g2,
     tiebreak_p1 = Some tb1, tiebreak_p2 = Some tb2,
     supertiebreak_p1 = None, supertiebreak_p2 = None\<rparr>"

definition masters :: tournament where
  "masters = \<lparr>t_id = ''t3'', t_name = ''Roma'', category = ''Masters 1000'',
     surface = ''Tierra'', is_best_of_five = False\<rparr>"

definition slam :: tournament where
  "slam = \<lparr>t_id = ''t5'', t_name = ''Wimbledon'', category = ''Grand Slam'',
     surface = ''Hierba'', is_best_of_five = True\<rparr>"

definition tour :: "tournament list" where
  "tour = [masters, slam]"

definition form_of :: "string \<Rightarrow> string \<Rightarrow> tennis_set list \<Rightarrow> formData" where
  "form_of tid w ss = \<lparr>tournament_id = tid, player1_id = ''ana'', player2_id = ''bea'',
     winner_id = w, sets = ss\<rparr>"

definition match_of :: "tennis_set list \<Rightarrow> match" where
  "match_of ss = \<lparr>m_id = ''m1'', m_tournament_id = ''t3'', m_player1_id = ''ana'',
     m_player2_id = ''bea'', m_winner_id = ''ana'', m_sets = Some ss\<rparr>"

section \<open>Properties of the set tally\<close>

lemma tallySets_counts:
  "tallySets ss (a, b) =
     (a + length (filter (\<lambda>s. js_gt (player1_games s) (player2_games s)) ss),
      b + length (filter (\<lambda>s. \<not> js_gt (player1_games s) (player2_games s)) ss))"
  by (induction ss arbitrary: a b) simp_all

lemma player1Sets_eq: "player1Sets fd = sets_won_p1 (sets fd)"
  by (simp add: player1Sets_def sets_won_p1_def tallySets_counts js_gt_def)

lemma player2Sets_eq:
  "player2Sets fd = sets_won_p2 (sets fd) + length (filter tied (sets fd))"
proof -
  have "length (filter (\<lambda>s. \<not> js_gt (player1_games s) (player2_games s)) ss) =
        sets_won_p2 ss + length (filter tied ss)" for ss
    by (induction ss) (auto simp: sets_won_p2_def tied_def js_gt_def)
  then show ?thesis
    by (simp add: player2Sets_def tallySets_counts)
qed

lemma tally_total: "player1Sets fd + player2Sets fd = length (sets fd)"
proof -
  have "length (filter P ss) + length (filter (\<lambda>s. \<not> P s) ss) = length ss"
    for P :: "tennis_set \<Rightarrow> bool" and ss
    by (induction ss) auto
  then show ?thesis
    by (simp add: player1Sets_def player2Sets_def tallySets_counts)
qed

text \<open>A tied set, wherever it stands in the list, adds one to the counter of player 2.\<close>

lemma tallySets_tied:
  assumes "tied s"
  shows "tallySets (s # rest) (a, b) = tallySets rest (a, b + 1)"
  using assms by (simp add: tied_def js_gt_def)

text \<open>
  On a set list without a tied set the code's counters are the two counts of sets won, and
  the winner is the side whose count reaches \<open>setsToWin\<close>, player 1 being asked first.
\<close>

lemma calculateWinner_untied:
  assumes "\<not> list_ex tied (sets fd)"
  shows "calculateWinner tournaments fd =
     (if sets_won_p1 (sets fd) \<ge> setsToWin tournaments fd then Some (player1_id fd)
      else if sets_won_p2 (sets fd) \<ge> setsToWin tournaments fd then Some (player2_id fd)
      else None)"
proof -
  from assms have "filter tied (sets fd) = []"
    by (simp add: list_ex_iff filter_empty_conv)
  then have p2: "player2Sets fd = sets_won_p2 (sets fd)"
    by (simp add: player2Sets_eq)
  have pos: "0 < setsToWin tournaments fd"
    by (simp add: setsToWin_def split: option.split)
  show ?thesis
  proof (cases "sets fd")
    case Nil
    with pos show ?thesis
      by (simp add: calculateWinner_def sets_won_p1_def sets_won_p2_def)
  next
    case (Cons s rest)
    then show ?thesis
      by (simp add: calculateWinner_def player1Sets_eq p2)
  qed
qed

text \<open>
  C1 (the code departs from the claim): a set whose two game counts are equal falls into
  the \<open>else\<close> branch of the loop and is counted for player 2. Two sets of 6-6 in a
  best-of-three match make player 2 the derived winner. The same happens on a form that
  passes validation: a set whose one field was emptied (\<open>null\<close>) and whose other field is
  \<open>0\<close> is shown as 0-0, is not strictly equal for the validator, and is counted for
  player 2.
\<close>

theorem calculateWinner_tied_set_counts_for_player2:
  "tallySets [mk_set (Some 6) (Some 6)] (0, 0) = (0, 1)
   \<and> calculateWinner tour (form_of ''t3'' ''ana'' [mk_set (Some 6) (Some 6), mk_set (Some 6) (Some 6)])
       = Some ''bea''
   \<and> validateMatch (form_of ''t3'' ''ana'' [mk_set (Some 0) None, mk_set (Some 0) None]) = Inr ()
   \<and> calculateWinner tour (form_of ''t3'' ''ana'' [mk_set (Some 0) None, mk_set (Some 0) None])
       = Some ''bea''"
  by (simp add: calculateWinner_def player1Sets_def player2Sets_def setsToWin_def
      find_tournament_def tour_def masters_def slam_def form_of_def mk_set_def js_gt_def
      js_lt_def to_number_def validateMatch_def)

text \<open>
  C2 (the code departs from the claim): a match is opened for editing, two sets are added
  and in each the games field of player 2 is filled and emptied again, leaving \<open>0\<close> and
  \<open>null\<close>. The form passes validation. Player 1 has won one set and player 2 none, so
  neither count of sets won reaches \<open>setsToWin = 2\<close>; yet the result is not \<open>null\<close> but
  player 2, and the request sent carries player 2 as the winner. The two sets without a
  winner were counted for player 2: this is the defect of C1.
\<close>

theorem calculateWinner_decided_without_sets_won:
  "validateMatch (form_of ''t3'' ''ana'' [mk_set (Some 6) (Some 4), mk_set (Some 0) None, mk_set (Some 0) None])
     = Inr ()
   \<and> sets_won_p1 [mk_set (Some 6) (Some 4), mk_set (Some 0) None, mk_set (Some 0) None] = 1
   \<and> sets_won_p2 [mk_set (Some 6) (Some 4), mk_set (Some 0) None, mk_set (Some 0) None] = 0
   \<and> setsToWin tour (form_of ''t3'' ''ana'' [mk_set (Some 6) (Some 4), mk_set (Some 0) None, mk_set (Some 0) None])
       = 2
   \<and> calculateWinner tour (form_of ''t3'' ''ana'' [mk_set (Some 6) (Some 4), mk_set (Some 0) None, mk_set (Some 0) None])
       = Some ''bea''
   \<and> handleSubmit tour (Some (match_of [mk_set (Some 6) (Some 4)]))
        (form_of ''t3'' ''ana'' [mk_set (Some 6) (Some 4), mk_set (Some 0) None, mk_set (Some 0) None])
       = Inr (Put ''m1''
           (form_of ''t3'' ''bea'' [mk_set (Some 6) (Some 4), mk_set (Some 0) None, mk_set (Some 0) None]))"
  by (simp add: handleSubmit_def validateMatch_def calculateWinner_def player1Sets_def
      player2Sets_def setsToWin_def find_tournament_def tour_def masters_def slam_def form_of_def
      match_of_def mk_set_def js_gt_def js_lt_def to_number_def sets_won_p1_def sets_won_p2_def)

text \<open>
  C10: when both counters of the loop reach \<open>setsToWin\<close>, the result is \<open>player1_id\<close>: the
  threshold of player 1 is tested first.
\<close>

theorem calculateWinner_player1_first:
  assumes "setsToWin tournaments fd \<le> player1Sets fd"
    and "setsToWin tournaments fd \<le> player2Sets fd"
  shows "calculateWinner tournaments fd = Some (player1_id fd)"
proof -
  have "0 < setsToWin tournaments fd"
    by (simp add: setsToWin_def split: option.split)
  with assms(1) have "0 < player1Sets fd" by linarith
  then have "0 < length (sets fd)"
    using tally_total [of fd] by linarith
  with assms(1) show ?thesis
    by (simp add: calculateWinner_def)
qed

theorem calculateWinner_player1_first_witness:
  "setsToWin tour (form_of ''t3'' ''bea''
      [mk_set (Some 6) (Some 4), mk_set (Some 4) (Some 6), mk_set (Some 6) (Some 4), mk_set (Some 4) (Some 6)]) = 2
   \<and> player1Sets (form_of ''t3'' ''bea''
      [mk_set (Some 6) (Some 4), mk_set (Some 4) (Some 6), mk_set (Some 6) (Some 4), mk_set (Some 4) (Some 6)]) = 2
   \<and> player2Sets (form_of ''t3'' ''bea''
      [mk_set (Some 6) (Some 4), mk_set (Some 4) (Some 6), mk_set (Some 6) (Some 4), mk_set (Some 4) (Some 6)]) = 2
   \<and> calculateWinner tour (form_of ''t3'' ''bea''
      [mk_set (Some 6) (Some 4), mk_set (Some 4) (Some 6), mk_set (Some 6) (Some 4), mk_set (Some 4) (Some 6)])
       = Some ''ana''"
proof -
  let ?fd = "form_of ''t3'' ''bea''
      [mk_set (Some 6) (Some 4), mk_set (Some 4) (Some 6), mk_set (Some 6) (Some 4), mk_set (Some 4) (Some 6)]"
  have n: "setsToWin tour ?fd = 2"
    by (simp add: setsToWin_def find_tournament_def tour_def masters_def slam_def form_of_def)
  have a: "player1Sets ?fd = 2"
    by (simp add: player1Sets_def form_of_def mk_set_def js_gt_def to_number_def)
  have b: "player2Sets ?fd = 2"
    by (simp add: player2Sets_def form_of_def mk_set_def js_gt_def to_number_def)
  have "calculateWinner tour ?fd = Some (player1_id ?fd)"
    using calculateWinner_player1_first [of tour ?fd] n a b by simp
  then have "calculateWinner tour ?fd = Some ''ana''"
    by (simp add: form_of_def)
  with n a b show ?thesis by simp
qed

section \<open>Properties of validation and submission\<close>

lemma validateSets_accepts:
  "(validateSets i ss = Inr ()) = list_all set_accepted ss"
  by (induction ss arbitrary: i) (auto simp: set_accepted_def)

lemma validateMatch_succeeds_iff_accepted:
  "(validateMatch fd = Inr ()) = (fields_well_formed fd \<and> list_all set_accepted (sets fd))"
  by (auto simp: validateMatch_def fields_well_formed_def validateSets_accepts)

text \<open>
  The sets the loop lets through are the well-formed ones and, beyond them, exactly the sets
  with \<open>0\<close> in one games field and \<open>null\<close> in the other.
\<close>

lemma set_accepted_iff: "set_accepted s = (set_well_formed s \<or> zero_and_null s)"
  by (auto simp: set_accepted_def set_well_formed_def zero_and_null_def tiebreak_score_def
      js_lt_def to_number_def split: option.splits)

lemma zero_and_null_tied: "zero_and_null s \<Longrightarrow> tied s \<and> \<not> set_well_formed s"
  by (auto simp: zero_and_null_def tied_def set_well_formed_def to_number_def)

text \<open>Every well-formed match passes, and a match that passes is well formed unless it holds
  such a set.\<close>

lemma validateMatch_well_formed:
  assumes "match_well_formed fd"
  shows "validateMatch fd = Inr ()"
  using assms
  by (auto simp: validateMatch_succeeds_iff_accepted match_well_formed_def set_accepted_iff
      list_all_iff)

lemma validateMatch_success:
  assumes "validateMatch fd = Inr ()" and "\<not> list_ex zero_and_null (sets fd)"
  shows "match_well_formed fd"
  using assms
  by (auto simp: validateMatch_succeeds_iff_accepted match_well_formed_def set_accepted_iff
      list_all_iff list_ex_iff)

text \<open>
  C3 (the code departs from the claim): the validator tests a tie with \<open>===\<close> on the two
  fields, so a set with \<open>0\<close> games on one side and an emptied field on the other, a set of
  0-0, is not seen as tied. A form holding the sets 6-4 and 0-0 of that kind, all its
  identifiers set and its winner one of the two players, passes validation although one
  of its sets has equal game counts.
\<close>

theorem validateMatch_accepts_tied_set:
  "tied (mk_set (Some 0) None)
   \<and> to_number (player1_games (mk_set (Some 0) None)) = to_number (player2_games (mk_set (Some 0) None))
   \<and> validateMatch (form_of ''t3'' ''ana'' [mk_set (Some 6) (Some 4), mk_set (Some 0) None]) = Inr ()
   \<and> validateMatch (form_of ''t3'' ''ana'' [mk_set (Some 6) (Some 4), mk_set (Some 0) (Some 0)])
       = Inl (TiedSet 2)"
  by (simp add: tied_def validateMatch_def form_of_def mk_set_def js_lt_def to_number_def)

text \<open>A tied set is never well formed, so the form above is not a well-formed match.\<close>

lemma tied_not_well_formed:
  assumes "list_ex tied (sets fd)"
  shows "\<not> match_well_formed fd"
  using assms
  by (auto simp: match_well_formed_def set_well_formed_def tied_def list_ex_iff list_all_iff)

text \<open>On sets whose game counts are integers the conditions read as plain arithmetic.\<close>

lemma set_well_formed_integers:
  "set_well_formed (s\<lparr>player1_games := Some a, player2_games := Some b\<rparr>) =
     (0 \<le> a \<and> 0 \<le> b \<and> a \<noteq> b \<and>
      ((a = 7 \<and> b = 6 \<or> a = 6 \<and> b = 7) \<longrightarrow> tiebreak_p1 s \<noteq> None \<and> tiebreak_p2 s \<noteq> None))"
  by (simp add: set_well_formed_def tiebreak_score_def to_number_def)

text \<open>
  Validation does not look at the sets when it checks the winner: a well-formed match
  stays valid when the other player is entered as its winner.
\<close>

lemma validateMatch_either_winner:
  assumes "validateMatch fd = Inr ()"
  shows "validateMatch (fd\<lparr>winner_id := player1_id fd\<rparr>) = Inr ()
       \<and> validateMatch (fd\<lparr>winner_id := player2_id fd\<rparr>) = Inr ()"
  using assms by (auto simp: validateMatch_succeeds_iff_accepted fields_well_formed_def)

lemma validateMatch_ids:
  assumes "validateMatch fd = Inr u"
  shows "player1_id fd \<noteq> [] \<and> player2_id fd \<noteq> []"
  using assms by (auto simp: validateMatch_def split: if_splits)

lemma handleSubmit_sends_iff_valid:
  "(\<exists>req. handleSubmit tournaments editingMatch fd = Inr req) = (validateMatch fd = Inr ())"
  by (auto simp: handleSubmit_def Let_def split: sum.splits)

text \<open>
  C5: when the form is submitted and \<open>calculateWinner\<close> gives a player, the data sent are
  the form data with \<open>winner_id\<close> replaced by that player; when it gives \<open>null\<close>, the data
  sent are the form data unchanged, with the winner the user entered.
\<close>

theorem handleSubmit_winner:
  assumes "handleSubmit tournaments editingMatch fd = Inr req"
  shows "(\<forall>w. calculateWinner tournaments fd = Some w \<longrightarrow> payload req = fd\<lparr>winner_id := w\<rparr>)
       \<and> (calculateWinner tournaments fd = None \<longrightarrow> payload req = fd)"
proof -
  from assms obtain u where v: "validateMatch fd = Inr u"
    by (auto simp: handleSubmit_def split: sum.splits)
  then have ids: "player1_id fd \<noteq> []" "player2_id fd \<noteq> []"
    using validateMatch_ids by blast+
  have nonempty: "w \<noteq> []" if "calculateWinner tournaments fd = Some w" for w
    using that ids by (auto simp: calculateWinner_def split: if_splits)
  show ?thesis
    using assms v nonempty
    by (auto simp: handleSubmit_def Let_def split: option.splits)
qed

theorem handleSubmit_winner_witness:
  "handleSubmit tour None (form_of ''t3'' ''bea'' [mk_set (Some 6) (Some 4), mk_set (Some 6) (Some 4)])
     = Inr (Post (form_of ''t3'' ''ana'' [mk_set (Some 6) (Some 4), mk_set (Some 6) (Some 4)]))
   \<and> calculateWinner tour (form_of ''t3'' ''bea'' [mk_set (Some 6) (Some 4), mk_set (Some 6) (Some 4)])
       = Some ''ana''
   \<and> handleSubmit tour None (form_of ''t3'' ''bea'' [mk_set (Some 6) (Some 4)])
       = Inr (Post (form_of ''t3'' ''bea'' [mk_set (Some 6) (Some 4)]))
   \<and> calculateWinner tour (form_of ''t3'' ''bea'' [mk_set (Some 6) (Some 4)]) = None"
proof -
  let ?two = "form_of ''t3'' ''bea'' [mk_set (Some 6) (Some 4), mk_set (Some 6) (Some 4)]"
  let ?one = "form_of ''t3'' ''bea'' [mk_set (Some 6) (Some 4)]"
  have v2: "validateMatch ?two = Inr ()"
    by (simp add: validateMatch_def form_of_def mk_set_def js_lt_def to_number_def)
  have v1: "validateMatch ?one = Inr ()"
    by (simp add: validateMatch_def form_of_def mk_set_def js_lt_def to_number_def)
  have c2: "calculateWinner tour ?two = Some ''ana''"
    by (simp add: calculateWinner_def player1Sets_def player2Sets_def setsToWin_def
        find_tournament_def tour_def masters_def slam_def form_of_def mk_set_def js_gt_def
        to_number_def)
  have c1: "calculateWinner tour ?one = None"
    by (simp add: calculateWinner_def player1Sets_def player2Sets_def setsToWin_def
        find_tournament_def tour_def masters_def slam_def form_of_def mk_set_def js_gt_def
        to_number_def)
  from v2 obtain r2 where s2: "handleSubmit tour None ?two = Inr r2"
    using handleSubmit_sends_iff_valid [of tour None ?two] by auto
  from v1 obtain r1 where s1: "handleSubmit tour None ?one = Inr r1"
    using handleSubmit_sends_iff_valid [of tour None ?one] by auto
  have p2: "payload r2 = ?two\<lparr>winner_id := ''ana''\<rparr>"
    using handleSubmit_winner [OF s2] c2 by simp
  have p1: "payload r1 = ?one"
    using handleSubmit_winner [OF s1] c1 by simp
  have k2: "r2 = Post (payload r2)"
    using s2 by (auto simp: handleSubmit_def Let_def split: sum.splits)
  have k1: "r1 = Post (payload r1)"
    using s1 by (auto simp: handleSubmit_def Let_def split: sum.splits)
  have e: "?two\<lparr>winner_id := ''ana''\<rparr> = form_of ''t3'' ''ana'' [mk_set (Some 6) (Some 4), mk_set (Some 6) (Some 4)]"
    by (simp add: form_of_def)
  from s2 k2 p2 e have "handleSubmit tour None ?two
      = Inr (Post (form_of ''t3'' ''ana'' [mk_set (Some 6) (Some 4), mk_set (Some 6) (Some 4)]))"
    by simp
  moreover from s1 k1 p1 have "handleSubmit tour None ?one = Inr (Post ?one)"
    by simp
  ultimately show ?thesis
    using c1 c2 by simp
qed

section \<open>Properties of the decisive set\<close>

lemma isDecisiveSet_unlisted:
  assumes "find_tournament tournaments (tournament_id fd) = None"
  shows "\<not> isDecisiveSet tournaments fd setIndex"
  using assms by (simp add: isDecisiveSet_def)

text \<open>The mark of the match detail view follows the sets played: it is on the last of them.\<close>

lemma formatSetScore_isDecisive_last_played:
  "formatSetScore_isDecisive match_sets setIndex = (match_sets \<noteq> [] \<and> setIndex = length match_sets - 1)"
  by (cases match_sets) (auto simp: formatSetScore_isDecisive_def)

text \<open>
  C4, as stated, fails in the match detail view: in a best-of-three match of two sets the
  set at position 1 is marked decisive and position 2 is not, while with three sets played
  position 2 is marked and position 1 is not. The mark depends on how many sets were played.
\<close>

theorem formatSetScore_isDecisive_counterexample:
  "find_tournament tour (m_tournament_id (match_of [mk_set (Some 6) (Some 4), mk_set (Some 6) (Some 4)]))
     = Some masters
   \<and> is_best_of_five masters = False
   \<and> formatSetScore_isDecisive [mk_set (Some 6) (Some 4), mk_set (Some 6) (Some 4)] 1
   \<and> formatSetScore_isDecisive [mk_set (Some 6) (Some 4), mk_set (Some 6) (Some 4)] 2 = False
   \<and> formatSetScore_isDecisive [mk_set (Some 6) (Some 4), mk_set (Some 4) (Some 6), mk_set (Some 6) (Some 4)] 2
   \<and> formatSetScore_isDecisive [mk_set (Some 6) (Some 4), mk_set (Some 4) (Some 6), mk_set (Some 6) (Some 4)] 1
       = False"
  by (simp add: formatSetScore_isDecisive_def find_tournament_def tour_def masters_def slam_def
      match_of_def)

text \<open>
  C4, amended: in the match form, whose classification chooses between the tiebreak and the
  supertiebreak inputs, a set position is decisive exactly when it is 4 in a best-of-five
  tournament and 2 otherwise, whatever sets the form holds (the tournament of the form being
  found); in the match detail view the set marked decisive is the last set played.
\<close>

theorem decisive_set_classifications:
  assumes "find_tournament tournaments (tournament_id fd) = Some t"
  shows "isDecisiveSet tournaments fd setIndex = (setIndex = (if is_best_of_five t then 4 else 2))
       \<and> isDecisiveSet tournaments (fd\<lparr>sets := played\<rparr>) setIndex = isDecisiveSet tournaments fd setIndex
       \<and> formatSetScore_isDecisive match_sets setIndex
           = (match_sets \<noteq> [] \<and> setIndex = length match_sets - 1)"
  using assms by (simp add: isDecisiveSet_def formatSetScore_isDecisive_last_played)

theorem decisive_set_classifications_witness:
  "find_tournament tour (tournament_id (form_of ''t5'' ''ana'' [emptySet])) = Some slam
   \<and> isDecisiveSet tour (form_of ''t5'' ''ana'' [emptySet]) 4
   \<and> \<not> isDecisiveSet tour (form_of ''t5'' ''ana'' [emptySet]) 2
   \<and> \<not> isDecisiveSet tour (form_of ''t5'' ''ana'' [emptySet]) 0
   \<and> find_tournament tour (tournament_id (form_of ''t3'' ''ana'' [emptySet])) = Some masters
   \<and> isDecisiveSet tour (form_of ''t3'' ''ana'' [emptySet]) 2
   \<and> \<not> isDecisiveSet tour (form_of ''t3'' ''ana'' [emptySet]) 4
   \<and> formatSetScore_isDecisive [emptySet, emptySet] 1
   \<and> \<not> formatSetScore_isDecisive [emptySet, emptySet] 2"
proof -
  have f5: "find_tournament tour (tournament_id (form_of ''t5'' ''ana'' [emptySet])) = Some slam"
    by (simp add: find_tournament_def tour_def masters_def slam_def form_of_def)
  have f3: "find_tournament tour (tournament_id (form_of ''t3'' ''ana'' [emptySet])) = Some masters"
    by (simp add: find_tournament_def tour_def masters_def slam_def form_of_def)
  have b5: "is_best_of_five slam" and b3: "\<not> is_best_of_five masters"
    by (simp_all add: slam_def masters_def)
  show ?thesis
    using f5 f3 b5 b3
      decisive_set_classifications [OF f5, of 4 "[emptySet]" "[emptySet, emptySet]"]
      decisive_set_classifications [OF f5, of 2 "[emptySet]" "[emptySet, emptySet]"]
      decisive_set_classifications [OF f5, of 0]
      decisive_set_classifications [OF f3, of 2] decisive_set_classifications [OF f3, of 4]
      decisive_set_classifications [OF f3, of 1 "[emptySet]" "[emptySet, emptySet]"]
    by simp
qed

section \<open>Properties of the set list of the form\<close>

lemma ceil_half_least: "n \<le> 2 * ceil_half n \<and> 2 * ceil_half n \<le> n + 1"
  by (simp add: ceil_half_def) presburger

lemma filter_index_length:
  "length (filter_index (\<lambda>j. j \<noteq> i) k xs) =
     (if k \<le> i \<and> i < k + length xs then length xs - 1 else length xs)"
  by (induction xs arbitrary: k) auto

lemma initializeSets_length:
  "length (initializeSets tournaments tournamentId) =
     (case find_tournament tournaments tournamentId of
        None \<Rightarrow> 0
      | Some t \<Rightarrow> if is_best_of_five t then 3 else 2)"
  by (simp add: initializeSets_def maxSets_def ceil_half_def split: option.split)

lemma select_ok:
  assumes "find_tournament tournaments tournamentId \<noteq> None"
  shows "set_count_ok tournaments (handleTournamentChange tournaments fd tournamentId)"
  using assms
  by (auto simp: set_count_ok_def handleTournamentChange_def initializeSets_length format_max_def)

lemma addSet_ok:
  assumes "set_count_ok tournaments fd"
  shows "set_count_ok tournaments (addSet tournaments fd)"
  using assms
  by (auto simp: set_count_ok_def addSet_def format_max_def maxSets_def split: if_splits)

lemma removeSet_ok:
  assumes "set_count_ok tournaments fd"
  shows "set_count_ok tournaments (removeSet fd i)"
  using assms
  by (auto simp: set_count_ok_def removeSet_def format_max_def filter_index_length)

lemma step_ok:
  assumes "set_count_ok tournaments fd" and "offered tournaments ev"
  shows "set_count_ok tournaments (step tournaments fd ev)"
  using assms by (cases ev) (simp_all add: select_ok addSet_ok removeSet_ok)

lemma run_ok:
  assumes "set_count_ok tournaments fd" and "list_all (offered tournaments) evs"
  shows "set_count_ok tournaments (run tournaments fd evs)"
  using assms by (induction evs arbitrary: fd) (simp_all add: step_ok)

text \<open>
  C8: once a tournament of the list has been selected, whatever additions, removals and
  further selections follow, the form holds at least one set and at most 5 sets when the
  selected tournament is best-of-five, 3 otherwise.
\<close>

theorem set_count_bounds:
  assumes "find_tournament tournaments tournamentId \<noteq> None"
    and "list_all (offered tournaments) evs"
  shows "1 \<le> length (sets (run tournaments (handleTournamentChange tournaments fd0 tournamentId) evs))
       \<and> length (sets (run tournaments (handleTournamentChange tournaments fd0 tournamentId) evs))
           \<le> format_max tournaments (run tournaments (handleTournamentChange tournaments fd0 tournamentId) evs)"
  using run_ok [OF select_ok [OF assms(1)] assms(2)]
  by (simp add: set_count_ok_def)

theorem set_count_bounds_witness:
  "find_tournament tour ''t5'' \<noteq> None
   \<and> list_all (offered tour) [AddSet, AddSet, AddSet, RemoveSet 1, SelectTournament ''t3'', AddSet, AddSet, RemoveSet 7]
   \<and> 1 \<le> length (sets (run tour (handleTournamentChange tour blank_form ''t5'')
        [AddSet, AddSet, AddSet, RemoveSet 1, SelectTournament ''t3'', AddSet, AddSet, RemoveSet 7]))
   \<and> length (sets (run tour (handleTournamentChange tour blank_form ''t5'')
        [AddSet, AddSet, AddSet, RemoveSet 1, SelectTournament ''t3'', AddSet, AddSet, RemoveSet 7]))
       \<le> format_max tour (run tour (handleTournamentChange tour blank_form ''t5'')
        [AddSet, AddSet, AddSet, RemoveSet 1, SelectTournament ''t3'', AddSet, AddSet, RemoveSet 7])
   \<and> format_max tour (run tour (handleTournamentChange tour blank_form ''t5'')
        [AddSet, AddSet, AddSet, RemoveSet 1, SelectTournament ''t3'', AddSet, AddSet, RemoveSet 7]) = 3"
proof -
  let ?evs = "[AddSet, AddSet, AddSet, RemoveSet 1, SelectTournament ''t3'', AddSet, AddSet, RemoveSet 7]"
  have f: "find_tournament tour ''t5'' \<noteq> None"
    by (simp add: find_tournament_def tour_def masters_def slam_def)
  have o: "list_all (offered tour) ?evs"
    by (simp add: find_tournament_def tour_def masters_def slam_def)
  have t: "tournament_id (run tour (handleTournamentChange tour blank_form ''t5'') ?evs) = ''t3''"
    by (simp add: handleTournamentChange_def addSet_def removeSet_def find_tournament_def
        tour_def masters_def slam_def initializeSets_def maxSets_def ceil_half_def blank_form_def)
  have m: "format_max tour (run tour (handleTournamentChange tour blank_form ''t5'') ?evs) = 3"
    unfolding format_max_def t
    by (simp add: find_tournament_def tour_def masters_def slam_def)
  show ?thesis
    using set_count_bounds [OF f o, of blank_form] f o m by simp
qed

text \<open>Before any selection, and after selecting an unlisted tournament, the list is empty.\<close>

lemma initializeSets_unlisted:
  assumes "find_tournament tournaments tournamentId = None"
  shows "sets (handleTournamentChange tournaments fd tournamentId) = []"
  using assms by (simp add: handleTournamentChange_def initializeSets_def)

section \<open>Properties of the score formatter\<close>

lemma or_zero_to_number: "or_zero v = to_number v"
  by (simp add: or_zero_def to_number_def split: option.split)

lemma formatSet_spec: "formatSet s = spec_fragment s"
  by (auto simp: formatSet_def spec_fragment_def bracketed_def or_zero_to_number to_number_def
      max_def Let_def split: option.splits)

lemma join_loop_append: "join_loop sep xs (a @ sep @ r) = a @ sep @ join_loop sep xs r"
  by (induction xs arbitrary: r) simp_all

lemma join_loop_separated: "join_loop sep xs r = separated sep (r # xs)"
proof (induction xs arbitrary: r)
  case Nil
  show ?case by simp
next
  case (Cons x xs)
  have "join_loop sep (x # xs) r = r @ sep @ join_loop sep xs x"
    by (simp add: join_loop_append)
  with Cons show ?case by simp
qed

lemma js_join_separated: "js_join sep xs = separated sep xs"
  by (cases xs) (simp_all add: js_join_def join_loop_separated)

text \<open>
  C6: a missing or empty set list is formatted as the placeholder; any other list as the
  fragments of its sets, in order, with a comma and a space between them. A fragment is the
  two game counts around a hyphen, then the larger tiebreak number in round brackets when
  both tiebreak fields are present, then the larger supertiebreak number in square brackets
  when both supertiebreak fields are present.
\<close>

theorem formatMatchScore_fragments:
  "formatMatchScore None = ''Sin sets''
   \<and> formatMatchScore (Some []) = ''Sin sets''
   \<and> (ss \<noteq> [] \<longrightarrow> formatMatchScore (Some ss) = separated '', '' (map spec_fragment ss))"
  by (simp add: formatMatchScore_def js_join_separated formatSet_spec cong: map_cong)

theorem formatMatchScore_fragments_witness:
  "[mk_set (Some 6) (Some 4), mk_tb_set 7 6 7 5] \<noteq> []
   \<and> spec_fragment (mk_set (Some 6) (Some 4)) = ''6-4''
   \<and> spec_fragment (mk_tb_set 7 6 7 5) = ''7-6(7)''
   \<and> formatMatchScore (Some [mk_set (Some 6) (Some 4), mk_tb_set 7 6 7 5]) = ''6-4, 7-6(7)''"
proof -
  have a: "spec_fragment (mk_set (Some 6) (Some 4)) = ''6-4''"
    by (simp add: spec_fragment_def bracketed_def mk_set_def to_number_def show_int_def
        show_nat.simps digit_char_def)
  have b: "spec_fragment (mk_tb_set 7 6 7 5) = ''7-6(7)''"
    by (simp add: spec_fragment_def bracketed_def mk_tb_set_def to_number_def show_int_def
        show_nat.simps digit_char_def)
  show ?thesis
    using formatMatchScore_fragments [of "[mk_set (Some 6) (Some 4), mk_tb_set 7 6 7 5]"] a b
    by simp
qed

lemma formatMatchScore_length_fragments:
  "length (map formatSet ss) = length ss \<and> (\<forall>i < length ss. map formatSet ss ! i = spec_fragment (ss ! i))"
  by (simp add: formatSet_spec)

section \<open>Properties of the match statistics\<close>

lemma count_set_sets:
  "p1Sets (count_set s st) =
     p1Sets st + (if to_number (player1_games s) > to_number (player2_games s) then 1 else 0)"
  "p2Sets (count_set s st) =
     p2Sets st + (if to_number (player1_games s) > to_number (player2_games s) then 0 else 1)"
  by (simp_all add: count_set_def Let_def or_zero_to_number)

lemma stats_loop_sets:
  "p1Sets (stats_loop ss st) = p1Sets st + sets_won_p1 ss"
  "p2Sets (stats_loop ss st) = p2Sets st + sets_won_p2 ss + length (filter tied ss)"
  by (induction ss arbitrary: st)
     (auto simp: count_set_sets sets_won_p1_def sets_won_p2_def tied_def)

text \<open>
  C7 (the code departs from the claim): the loop gives every set that player 1 has not won
  to player 2, a tied set included. A match of the single set 6-6 has \<open>p2Sets = 1\<close>, though
  player 2 won no set.
\<close>

theorem calculateMatchStats_tied_set_counts_for_player2:
  "map_option p2Sets (calculateMatchStats (Some (match_of [mk_set (Some 6) (Some 6)]))) = Some 1
   \<and> map_option p1Sets (calculateMatchStats (Some (match_of [mk_set (Some 6) (Some 6)]))) = Some 0
   \<and> sets_won_p2 [mk_set (Some 6) (Some 6)] = 0"
  by (simp add: calculateMatchStats_def match_of_def mk_set_def count_set_def zero_stats_def
      or_zero_def sets_won_p2_def to_number_def)

section \<open>Properties of the lookup helpers\<close>

lemma getSurfaceColor_default:
  assumes "surfaceName \<notin> set surface_names" and "surfaceName \<notin> set object_prototype_members"
  shows "getSurfaceColor surfaceName = JString ''from-gray-500 to-gray-600''"
  using assms
  by (simp add: getSurfaceColor_def js_get_def or_default_def surface_colors_def surface_names_def)

lemma getSurfaceIcon_default:
  assumes "surfaceName \<notin> set surface_names" and "surfaceName \<notin> set object_prototype_members"
  shows "getSurfaceIcon surfaceName = JString [CHR 0xF0, CHR 0x9F, CHR 0x8E, CHR 0xBE]"
  using assms
  by (simp add: getSurfaceIcon_def js_get_def or_default_def surface_icons_def surface_names_def)

lemma getCategoryInfo_default:
  assumes "cat_name \<notin> set category_names"
  shows "getCategoryInfo cat_name = TOURNAMENT_CATEGORIES ! 0"
  using assms
  by (auto simp: getCategoryInfo_def TOURNAMENT_CATEGORIES_def category_names_def)

lemma getSurfaceInfo_default:
  assumes "surface_name \<notin> set surface_names"
  shows "getSurfaceInfo surface_name = SURFACES ! 0"
  using assms
  by (auto simp: getSurfaceInfo_def SURFACES_def surface_names_def)

text \<open>
  C9 (the code departs from the claim): the colour and icon helpers read the key from an
  object literal, so a key that names a member every object inherits is found there and the
  default after \<open>||\<close> is not taken. For the surface string \<open>constructor\<close>, which is none of
  the four surfaces, neither helper gives its default, while \<open>getSurfaceInfo\<close>, which
  searches the table, gives its fallback entry.
\<close>

theorem getSurfaceColor_inherited_key:
  "''constructor'' \<notin> set surface_names
   \<and> getSurfaceColor ''constructor'' = JInherited ''constructor''
   \<and> getSurfaceColor ''constructor'' \<noteq> JString ''from-gray-500 to-gray-600''
   \<and> getSurfaceIcon ''constructor'' \<noteq> JString [CHR 0xF0, CHR 0x9F, CHR 0x8E, CHR 0xBE]
   \<and> getSurfaceInfo ''constructor'' = SURFACES ! 0"
  by (simp add: getSurfaceColor_def getSurfaceIcon_def js_get_def or_default_def surface_colors_def
      surface_icons_def surface_names_def object_prototype_members_def getSurfaceInfo_def SURFACES_def)

end
